theory Spec2Isabelle
  imports Complex_Main "HOL-Library.Multiset" "HOL-Library.Option_ord"
begin

section \<open>The admin dashboard\<close>

subsection \<open>notificationsSlice.ts: the notifications reducer\<close>

text \<open>
  The \<^verbatim>\<open>Notification\<close> interface of the slice; its \<^verbatim>\<open>id\<close> field is \<open>notif_id\<close> here.
  \<^verbatim>\<open>metadata\<close>, \<^verbatim>\<open>created_at\<close> and \<^verbatim>\<open>read_at\<close> are never read or written by the reducers
  and are left out.
\<close>

record Notification =
  notif_id :: int
  title :: string
  message :: string
  notification_type :: string
  priority :: string
  is_read :: bool

text \<open>
  \<^verbatim>\<open>NotificationsState\<close>. \<^verbatim>\<open>unreadCount\<close> is a JavaScript number; the two reducers below
  only subtract one from it and compare it with zero, so it is an integer here.
\<close>

record NotificationsState =
  notifications :: "Notification list"
  unreadCount :: int
  loading :: bool
  error :: "string option"

definition initialState :: NotificationsState where
  "initialState = \<lparr>notifications = [], unreadCount = 0, loading = False, error = None\<rparr>"

text \<open>
  \<^verbatim>\<open>state.notifications.find(n => n.id === action.payload)\<close> followed by the assignment
  \<^verbatim>\<open>notification.is_read = true\<close>: only the first notification with that id is marked.
\<close>

fun mark_first_read :: "int \<Rightarrow> Notification list \<Rightarrow> Notification list" where
  "mark_first_read i [] = []"
| "mark_first_read i (n # ns) =
     (if notif_id n = i then n\<lparr>is_read := True\<rparr> # ns else n # mark_first_read i ns)"

text \<open>The case \<^verbatim>\<open>markNotificationRead.fulfilled\<close>; the payload is the notification's id.\<close>

definition markNotificationRead_fulfilled :: "NotificationsState \<Rightarrow> int \<Rightarrow> NotificationsState" where
  "markNotificationRead_fulfilled st payload =
     st\<lparr>notifications := mark_first_read payload (notifications st),
        unreadCount := max 0 (unreadCount st - 1)\<rparr>"

text \<open>The case \<^verbatim>\<open>markAllNotificationsRead.fulfilled\<close>.\<close>

definition markAllNotificationsRead_fulfilled :: "NotificationsState \<Rightarrow> NotificationsState" where
  "markAllNotificationsRead_fulfilled st =
     st\<lparr>notifications := map (\<lambda>n. n\<lparr>is_read := True\<rparr>) (notifications st),
        unreadCount := 0\<rparr>"

text \<open>The two actions whose sequences are considered, and the reducer run over a sequence.\<close>

datatype read_action = MarkRead int | MarkAllRead

fun reducer :: "NotificationsState \<Rightarrow> read_action \<Rightarrow> NotificationsState" where
  "reducer st (MarkRead i) = markNotificationRead_fulfilled st i"
| "reducer st MarkAllRead = markAllNotificationsRead_fulfilled st"

definition dispatch_all :: "NotificationsState \<Rightarrow> read_action list \<Rightarrow> NotificationsState" where
  "dispatch_all st acts = foldl reducer st acts"

subsection \<open>FaceRecognition.tsx: the enrollment form\<close>

text \<open>
  The part of the component's state that \<^verbatim>\<open>handleEnrollment\<close> and the submit button read:
  the two \<^verbatim>\<open>useState\<close> cells and the mutation's \<^verbatim>\<open>isPending\<close> flag.
\<close>

record EnrollmentForm =
  selectedImages :: "string list"
  employeeId :: string
  isPending :: bool

text \<open>The argument of \<^verbatim>\<open>faceRecognitionAPI.enrollFace\<close>.\<close>

record EnrollRequest =
  employee_id :: string
  images :: "string list"
  quality_check :: bool

text \<open>
  \<^verbatim>\<open>handleEnrollment\<close>: \<open>Some\<close> the request handed to \<^verbatim>\<open>enrollMutation.mutate\<close>, \<open>None\<close> when
  the handler does nothing. A JavaScript string is truthy exactly when it is not empty.
\<close>

definition handleEnrollment :: "EnrollmentForm \<Rightarrow> EnrollRequest option" where
  "handleEnrollment f =
     (if length (selectedImages f) = 3 \<and> employeeId f \<noteq> []
      then Some \<lparr>employee_id = employeeId f, images = selectedImages f, quality_check = True\<rparr>
      else None)"

text \<open>The \<^verbatim>\<open>disabled\<close> attribute of the ``Enroll Face'' button.\<close>

definition enroll_disabled :: "EnrollmentForm \<Rightarrow> bool" where
  "enroll_disabled f =
     (length (selectedImages f) \<noteq> 3 \<or> employeeId f = [] \<or> isPending f)"

section \<open>The embedding store: the database initialisation script\<close>

text \<open>
  A pgvector \<^verbatim>\<open>vector\<close> is a sequence of finite single-precision components (pgvector
  refuses NaN and infinite components); a component is the real number it denotes.
\<close>

type_synonym vector = "real list"

text \<open>
  A \<^verbatim>\<open>FLOAT\<close> (double precision) value as the script's functions meet it: a number or
  NaN, which PostgreSQL treats as an ordinary value. The values that occur are a distance
  between 0 and 2, one minus it, or NaN; none is infinite.
\<close>

datatype float8 = Num real | NaN

text \<open>
  PostgreSQL's ordering of double precision values, \<^verbatim>\<open><=\<close>: NaN is equal to itself and
  greater than every number.
\<close>

definition float8_le :: "float8 \<Rightarrow> float8 \<Rightarrow> bool" where
  "float8_le a b =
     (case b of
        NaN \<Rightarrow> True
      | Num y \<Rightarrow> (case a of NaN \<Rightarrow> False | Num x \<Rightarrow> x \<le> y))"

text \<open>
  The subtraction of double precision values. NaN in gives NaN out; the exact difference
  of two numbers is rounded to double precision by \<open>rnd\<close>, which is an argument because
  the rounding belongs to the arithmetic of the machine, not to the script.
\<close>

definition float8_minus :: "(real \<Rightarrow> real) \<Rightarrow> float8 \<Rightarrow> float8 \<Rightarrow> float8" where
  "float8_minus rnd a b =
     (case a of
        NaN \<Rightarrow> NaN
      | Num x \<Rightarrow> (case b of NaN \<Rightarrow> NaN | Num y \<Rightarrow> Num (rnd (x - y))))"

text \<open>A value is a number between two bounds; NaN is not.\<close>

definition in_range :: "real \<Rightarrow> real \<Rightarrow> float8 \<Rightarrow> bool" where
  "in_range lo hi v = (case v of NaN \<Rightarrow> False | Num x \<Rightarrow> lo \<le> x \<and> x \<le> hi)"

text \<open>
  What a statement of the script can fail with: \<^verbatim>\<open>LIMIT\<close> refuses a negative count, and
  pgvector's distance operator refuses vectors of different dimensions. \<open>NotANumber\<close> is
  not raised by the script; it is how the matcher below reports an answer of the store
  that holds a similarity that is not a number.
\<close>

datatype pg_error = NegativeLimit | DifferentDimensions | NotANumber

text \<open>
  \<^verbatim>\<open>calculate_face_similarity\<close>: \<^verbatim>\<open>RETURN 1 - (embedding1 <=> embedding2)\<close>. The operator
  \<^verbatim>\<open><=>\<close> is pgvector's cosine distance (\<^verbatim>\<open>vector_cosine_ops\<close>); it belongs to the
  extension, not to the script, and computes in floating point, so it is the argument
  \<open>cos_dist\<close> here: it raises an error or yields a double precision value, NaN included.
\<close>

definition calculate_face_similarity ::
  "(real \<Rightarrow> real) \<Rightarrow> (vector \<Rightarrow> vector \<Rightarrow> pg_error + float8) \<Rightarrow> vector \<Rightarrow> vector
     \<Rightarrow> pg_error + float8" where
  "calculate_face_similarity rnd cos_dist embedding1 embedding2 =
     (case cos_dist embedding1 embedding2 of
        Inl err \<Rightarrow> Inl err
      | Inr d \<Rightarrow> Inr (float8_minus rnd (Num 1) d))"

text \<open>
  The cosine distance in exact arithmetic, as one instance of the operator: the value the
  operator has where no rounding, overflow or underflow of its single-precision sums
  occurs. With a vector of norm zero the quotient is 0/0, which is NaN.
\<close>

definition inner_product :: "vector \<Rightarrow> vector \<Rightarrow> real" where
  "inner_product a b = (\<Sum>(x, y)\<leftarrow>zip a b. x * y)"

definition norm_sq :: "vector \<Rightarrow> real" where
  "norm_sq a = inner_product a a"

definition exact_cosine_distance :: "vector \<Rightarrow> vector \<Rightarrow> pg_error + float8" where
  "exact_cosine_distance a b =
     (if length a \<noteq> length b then Inl DifferentDimensions
      else if norm_sq a = 0 \<or> norm_sq b = 0 then Inr NaN
      else Inr (Num (1 - inner_product a b / sqrt (norm_sq a * norm_sq b))))"

text \<open>Exact arithmetic as an instance of the rounding: nothing is rounded.\<close>

definition no_rounding :: "real \<Rightarrow> real" where
  "no_rounding x = x"

text \<open>
  The cosine of the angle between two vectors, as it is usually written: the reference
  the store's similarity is compared with.
\<close>

definition cosine_similarity :: "vector \<Rightarrow> vector \<Rightarrow> real" where
  "cosine_similarity a b = inner_product a b / (sqrt (norm_sq a) * sqrt (norm_sq b))"

text \<open>
  A row of the table \<^verbatim>\<open>face_embeddings\<close>. The column \<^verbatim>\<open>embedding\<close> is not declared
  \<^verbatim>\<open>NOT NULL\<close>; \<^verbatim>\<open>created_at\<close> and \<^verbatim>\<open>updated_at\<close> are not read by the functions below.
\<close>

record face_embedding =
  fe_id :: int
  fe_user_id :: int
  fe_embedding :: "vector option"

text \<open>
  A row of the table that \<^verbatim>\<open>find_similar_faces\<close> returns. The type of the similarity is
  left open: it is a double precision value in the script and a number for the matcher.
\<close>

record 's candidate =
  user_id :: int
  similarity :: 's
  embedding_id :: int

text \<open>
  The select list of \<^verbatim>\<open>find_similar_faces\<close> over the rows of the table, in table order. A
  row whose embedding is \<^verbatim>\<open>NULL\<close> has similarity \<^verbatim>\<open>NULL\<close>, fails the \<^verbatim>\<open>WHERE\<close> clause and is
  skipped. An error of the operator on any row ends the whole statement. A similarity
  that is NaN is a value like any other and stays in its row.
\<close>

fun score_rows ::
  "(real \<Rightarrow> real) \<Rightarrow> (vector \<Rightarrow> vector \<Rightarrow> pg_error + float8) \<Rightarrow> vector
     \<Rightarrow> face_embedding list \<Rightarrow> pg_error + float8 candidate list" where
  "score_rows rnd cos_dist q [] = Inr []"
| "score_rows rnd cos_dist q (fe # fes) =
     (case fe_embedding fe of
        None \<Rightarrow> score_rows rnd cos_dist q fes
      | Some e \<Rightarrow>
          (case calculate_face_similarity rnd cos_dist q e of
             Inl err \<Rightarrow> Inl err
           | Inr s \<Rightarrow>
               (case score_rows rnd cos_dist q fes of
                  Inl err \<Rightarrow> Inl err
                | Inr cs \<Rightarrow>
                    Inr (\<lparr>user_id = fe_user_id fe, similarity = s, embedding_id = fe_id fe\<rparr>
                         # cs))))"

text \<open>
  The sort key of \<^verbatim>\<open>ORDER BY similarity DESC\<close>: ascending in this key is descending in
  PostgreSQL's ordering, NaN first.
\<close>

definition desc_key :: "float8 \<Rightarrow> real option" where
  "desc_key v = (case v of NaN \<Rightarrow> None | Num x \<Rightarrow> Some (- x))"

text \<open>
  \<^verbatim>\<open>WHERE similarity >= similarity_threshold ORDER BY similarity DESC LIMIT max_results\<close>.
  A NaN similarity passes the \<^verbatim>\<open>WHERE\<close> clause, NaN being greater than every number. SQL
  leaves the order of rows of equal similarity open; the sort here keeps them in table
  order.
\<close>

definition rank_and_limit ::
  "float8 \<Rightarrow> nat \<Rightarrow> float8 candidate list \<Rightarrow> float8 candidate list" where
  "rank_and_limit similarity_threshold n cs =
     take n (sort_key (\<lambda>c. desc_key (similarity c))
               (filter (\<lambda>c. float8_le similarity_threshold (similarity c)) cs))"

text \<open>
  \<^verbatim>\<open>find_similar_faces(query_embedding, similarity_threshold, max_results)\<close>, with the
  rounding, the operator and the contents of \<^verbatim>\<open>face_embeddings\<close> as first arguments. The
  script's defaults for the last two arguments are 0.6 and 10; the arguments are taken
  not to be \<^verbatim>\<open>NULL\<close>.
\<close>

definition find_similar_faces ::
  "(real \<Rightarrow> real) \<Rightarrow> (vector \<Rightarrow> vector \<Rightarrow> pg_error + float8) \<Rightarrow> face_embedding list
     \<Rightarrow> vector \<Rightarrow> float8 \<Rightarrow> int \<Rightarrow> pg_error + float8 candidate list" where
  "find_similar_faces rnd cos_dist face_embeddings query_embedding similarity_threshold
       max_results =
     (if max_results < 0 then Inl NegativeLimit
      else case score_rows rnd cos_dist query_embedding face_embeddings of
        Inl err \<Rightarrow> Inl err
      | Inr cs \<Rightarrow> Inr (rank_and_limit similarity_threshold (nat max_results) cs))"

text \<open>
  The operator accepts a stored row for the query \<open>q\<close>: on the row's embedding, if it has
  one, it raises no error (as it does not when the dimensions agree).
\<close>

definition accepted ::
  "(vector \<Rightarrow> vector \<Rightarrow> pg_error + float8) \<Rightarrow> vector \<Rightarrow> face_embedding \<Rightarrow> bool" where
  "accepted cos_dist q fe =
     (case fe_embedding fe of
        None \<Rightarrow> True
      | Some e \<Rightarrow> (case cos_dist q e of Inl err \<Rightarrow> False | Inr d \<Rightarrow> True))"

text \<open>
  A candidate is the scored row of a table row: the row has an embedding, and the
  candidate carries the row's user, its id and its similarity to the query \<open>q\<close>.
\<close>

definition scored_as ::
  "(real \<Rightarrow> real) \<Rightarrow> (vector \<Rightarrow> vector \<Rightarrow> pg_error + float8) \<Rightarrow> vector
     \<Rightarrow> float8 candidate \<Rightarrow> face_embedding \<Rightarrow> bool" where
  "scored_as rnd cos_dist q c fe =
     (case fe_embedding fe of
        None \<Rightarrow> False
      | Some e \<Rightarrow>
          calculate_face_similarity rnd cos_dist q e = Inr (similarity c)
          \<and> user_id c = fe_user_id fe \<and> embedding_id c = fe_id fe)"

section \<open>The matcher\<close>

text \<open>
  Modelled from the spec: the two thresholds of the matcher (section 4.3) with their
  defaults, 0.6 for acceptance and 0.03 for separation.
\<close>

record MatcherConfig =
  acceptance_threshold :: real
  separation_threshold :: real

definition default_config :: MatcherConfig where
  "default_config = \<lparr>acceptance_threshold = 0.6, separation_threshold = 0.03\<rparr>"

text \<open>
  Modelled from the spec: \<open>MatchResult\<close> (section 4.3), either \<open>Accepted\<close> with the identity
  and its similarity or \<open>Rejected\<close> with a reason.
\<close>

datatype reject_reason = BelowThreshold | Ambiguous

datatype MatchResult = Accepted int real | Rejected reject_reason

text \<open>
  Modelled from the spec: the matcher's acceptance policy (section 4.3), whose code is not
  among the sources. No candidates, or a top similarity below the acceptance threshold:
  \<open>BelowThreshold\<close>. Otherwise, a second candidate of a different identity closer than the
  separation threshold: \<open>Ambiguous\<close>. Otherwise the top identity is accepted.
\<close>

definition decide :: "MatcherConfig \<Rightarrow> real candidate list \<Rightarrow> MatchResult" where
  "decide cfg cands =
     (case cands of
        [] \<Rightarrow> Rejected BelowThreshold
      | top1 # others \<Rightarrow>
          if similarity top1 < acceptance_threshold cfg then Rejected BelowThreshold
          else (case others of
                  [] \<Rightarrow> Accepted (user_id top1) (similarity top1)
                | top2 # _ \<Rightarrow>
                    if similarity top1 - similarity top2 < separation_threshold cfg
                       \<and> user_id top1 \<noteq> user_id top2
                    then Rejected Ambiguous
                    else Accepted (user_id top1) (similarity top1)))"

text \<open>
  Modelled from the spec: \<open>match\<close> (section 4.3), whose code is not among the sources. It
  asks the embedding store's query operation for the top two candidates and applies the
  policy; a failure of the store is passed on. The query operation is an argument, so
  that it can be \<open>find_similar_faces\<close> over any table and with any threshold.
\<close>

definition match ::
  "MatcherConfig \<Rightarrow> (vector \<Rightarrow> int \<Rightarrow> pg_error + real candidate list) \<Rightarrow> vector
     \<Rightarrow> pg_error + MatchResult" where
  "match cfg query v =
     (case query v 2 of
        Inl err \<Rightarrow> Inl err
      | Inr cands \<Rightarrow> Inr (decide cfg cands))"

text \<open>
  Modelled from the spec: the store's answer as the matcher reads it. A MatchCandidate's
  similarity is a number (section 3); an answer of the store that holds a similarity
  that is not a number is passed on as a failure of the store.
\<close>

fun candidates_of :: "float8 candidate list \<Rightarrow> pg_error + real candidate list" where
  "candidates_of [] = Inr []"
| "candidates_of (c # cs) =
     (case similarity c of
        NaN \<Rightarrow> Inl NotANumber
      | Num s \<Rightarrow>
          (case candidates_of cs of
             Inl err \<Rightarrow> Inl err
           | Inr cs' \<Rightarrow>
               Inr (\<lparr>user_id = user_id c, similarity = s, embedding_id = embedding_id c\<rparr>
                    # cs')))"

text \<open>
  Modelled from the spec: the embedding store's query operation (section 4.2) as the
  script provides it, \<open>find_similar_faces\<close> over a table and with a threshold, read by the
  matcher.
\<close>

definition store_query ::
  "(real \<Rightarrow> real) \<Rightarrow> (vector \<Rightarrow> vector \<Rightarrow> pg_error + float8) \<Rightarrow> face_embedding list
     \<Rightarrow> float8 \<Rightarrow> vector \<Rightarrow> int \<Rightarrow> pg_error + real candidate list" where
  "store_query rnd cos_dist face_embeddings similarity_threshold v k =
     (case find_similar_faces rnd cos_dist face_embeddings v similarity_threshold k of
        Inl err \<Rightarrow> Inl err
      | Inr cs \<Rightarrow> candidates_of cs)"

section \<open>The task orchestrator\<close>

text \<open>
  Modelled from the spec: the kinds and states of a task (sections 3 and 4.4). The
  dashboard only calls the orchestrator over HTTP (\<^verbatim>\<open>faceRecognitionAPI\<close>); the
  orchestrator's own code is not among the sources.
\<close>

datatype task_kind = Enrollment | Verification

datatype task_state = Queued | Processing | Completed | Failed | TimedOut

text \<open>
  Modelled from the spec: the Task of section 3. The input reference, the result payload
  and the error detail are opaque strings; times are seconds.
\<close>

record Task =
  task_id :: nat
  kind :: task_kind
  subject_key :: string
  state :: task_state
  input_ref :: string
  result_payload :: "string option"
  error_detail :: "string option"
  created_at :: int
  updated_at :: int

text \<open>
  Modelled from the spec: the orchestrator's state, the tasks it owns and the next
  unused task id; at the start it owns no task.
\<close>

record Orchestrator =
  tasks :: "Task list"
  next_task_id :: nat

definition initial_orchestrator :: Orchestrator where
  "initial_orchestrator = \<lparr>tasks = [], next_task_id = 0\<rparr>"

text \<open>
  Modelled from the spec: ``in-flight'' (glossary), a task that is Queued or Processing.
\<close>

definition in_flight :: "Task \<Rightarrow> bool" where
  "in_flight t = (state t = Queued \<or> state t = Processing)"

datatype submit_error = DuplicateInFlight

text \<open>
  Modelled from the spec: submission (section 4.4). A task for a subject key that already
  has a task Queued or Processing is rejected with \<open>DuplicateInFlight\<close> and nothing is
  queued; otherwise a new task is queued under a fresh id.
\<close>

definition submit ::
  "Orchestrator \<Rightarrow> task_kind \<Rightarrow> string \<Rightarrow> string \<Rightarrow> int
     \<Rightarrow> (submit_error + nat) \<times> Orchestrator" where
  "submit orch k key input now =
     (if list_ex (\<lambda>t. subject_key t = key \<and> in_flight t) (tasks orch)
      then (Inl DuplicateInFlight, orch)
      else (Inr (next_task_id orch),
            orch\<lparr>tasks := tasks orch @
                    [\<lparr>task_id = next_task_id orch, kind = k, subject_key = key, state = Queued,
                      input_ref = input, result_payload = None, error_detail = None,
                      created_at = now, updated_at = now\<rparr>],
                 next_task_id := Suc (next_task_id orch)\<rparr>))"

text \<open>
  Modelled from the spec: \<open>submitEnrollment\<close> and \<open>submitVerification\<close> (section 6). The
  subject key is the identity for an enrollment and the camera for a verification.
\<close>

definition submitEnrollment ::
  "Orchestrator \<Rightarrow> string \<Rightarrow> string \<Rightarrow> int \<Rightarrow> (submit_error + nat) \<times> Orchestrator" where
  "submitEnrollment orch ident imgs now = submit orch Enrollment ident imgs now"

definition submitVerification ::
  "Orchestrator \<Rightarrow> string \<Rightarrow> string \<Rightarrow> int \<Rightarrow> (submit_error + nat) \<times> Orchestrator" where
  "submitVerification orch img cameraId now = submit orch Verification cameraId img now"

text \<open>
  Modelled from the spec: a change of the task with a given id; tasks are keyed by
  task id (section 6).
\<close>

definition update_task :: "nat \<Rightarrow> (Task \<Rightarrow> Task) \<Rightarrow> Orchestrator \<Rightarrow> Orchestrator" where
  "update_task tid f orch =
     orch\<lparr>tasks := map (\<lambda>t. if task_id t = tid then f t else t) (tasks orch)\<rparr>"

text \<open>
  Modelled from the spec: the transition Queued to Processing (section 4.4), a worker
  claiming the task. Asked of a task in any other state it leaves the task as it is.
\<close>

definition claim :: "Orchestrator \<Rightarrow> nat \<Rightarrow> int \<Rightarrow> Orchestrator" where
  "claim orch tid now =
     update_task tid
       (\<lambda>t. if state t = Queued then t\<lparr>state := Processing, updated_at := now\<rparr> else t) orch"

text \<open>
  Modelled from the spec: the transition Processing to Completed (section 4.4), with the
  worker's result. Asked of a task in any other state it leaves the task as it is.
\<close>

definition complete :: "Orchestrator \<Rightarrow> nat \<Rightarrow> string \<Rightarrow> int \<Rightarrow> Orchestrator" where
  "complete orch tid payload now =
     update_task tid
       (\<lambda>t. if state t = Processing
            then t\<lparr>state := Completed, result_payload := Some payload, updated_at := now\<rparr>
            else t) orch"

text \<open>
  Modelled from the spec: the transition Processing to Failed (section 4.4), with the
  error detail kept. Asked of a task in any other state it leaves the task as it is.
\<close>

definition fail :: "Orchestrator \<Rightarrow> nat \<Rightarrow> string \<Rightarrow> int \<Rightarrow> Orchestrator" where
  "fail orch tid detail now =
     update_task tid
       (\<lambda>t. if state t = Processing
            then t\<lparr>state := Failed, error_detail := Some detail, updated_at := now\<rparr>
            else t) orch"

text \<open>
  Modelled from the spec: the default deadlines of section 4.4, ten seconds for a
  verification and thirty for an enrollment.
\<close>

definition default_deadline :: "task_kind \<Rightarrow> int" where
  "default_deadline k = (case k of Verification \<Rightarrow> 10 | Enrollment \<Rightarrow> 30)"

text \<open>
  Modelled from the spec: the transition Processing to TimedOut (section 4.4). Every
  Processing task whose deadline, counted from the moment it was claimed, has passed
  becomes TimedOut with reason Timeout.
\<close>

definition expire :: "(task_kind \<Rightarrow> int) \<Rightarrow> Orchestrator \<Rightarrow> int \<Rightarrow> Orchestrator" where
  "expire deadline orch now =
     orch\<lparr>tasks := map
       (\<lambda>t. if state t = Processing \<and> deadline (kind t) \<le> now - updated_at t
            then t\<lparr>state := TimedOut, error_detail := Some ''Timeout'', updated_at := now\<rparr>
            else t) (tasks orch)\<rparr>"

text \<open>
  Modelled from the spec: what can happen to an orchestrator (a submission, a claim, a
  worker's report, the passing of time) and a run of such events from a given state.
\<close>

datatype event =
    Submit task_kind string string int
  | Claim nat int
  | Complete nat string int
  | Fail nat string int
  | Expire int

fun step :: "(task_kind \<Rightarrow> int) \<Rightarrow> Orchestrator \<Rightarrow> event \<Rightarrow> Orchestrator" where
  "step dl orch (Submit k key input now) = snd (submit orch k key input now)"
| "step dl orch (Claim tid now) = claim orch tid now"
| "step dl orch (Complete tid payload now) = complete orch tid payload now"
| "step dl orch (Fail tid detail now) = fail orch tid detail now"
| "step dl orch (Expire now) = expire dl orch now"

definition run :: "(task_kind \<Rightarrow> int) \<Rightarrow> Orchestrator \<Rightarrow> event list \<Rightarrow> Orchestrator" where
  "run dl orch evs = foldl (step dl) orch evs"

text \<open>
  Modelled from the spec: the number of in-flight tasks of a subject key, which the
  invariant of section 4.4 bounds by one.
\<close>

definition in_flight_for :: "string \<Rightarrow> Task list \<Rightarrow> nat" where
  "in_flight_for key ts = length (filter (\<lambda>t. subject_key t = key \<and> in_flight t) ts)"

section \<open>The attendance ledger\<close>

text \<open>The values of the column \<^verbatim>\<open>attendance_type\<close>; \<^verbatim>\<open>'check_in'\<close> is its default.\<close>

datatype attendance_type = check_in | check_out

text \<open>
  A row of the table \<^verbatim>\<open>attendance_logs\<close>, with the columns the spec's AttendanceRecord
  names (\<^verbatim>\<open>id\<close> is \<open>log_id\<close>, \<^verbatim>\<open>user_id\<close> is \<open>log_user_id\<close>); timestamps are seconds.
\<close>

record AttendanceRecord =
  log_id :: nat
  log_user_id :: int
  timestamp :: int
  attendance_type :: attendance_type
  camera_id :: string
  confidence :: real
  verification_time :: "real option"

text \<open>
  A row of the table \<^verbatim>\<open>attendance_summaries\<close>; \<^verbatim>\<open>date\<close> is a day number and the two times
  are seconds since midnight. \<^verbatim>\<open>created_at\<close> and \<^verbatim>\<open>updated_at\<close>, which the defaults and the
  trigger \<^verbatim>\<open>update_attendance_summaries_updated_at\<close> stamp with the wall clock, are left out.
\<close>

record AttendanceSummary =
  summary_user_id :: int
  date :: int
  check_in_time :: "int option"
  check_out_time :: "int option"
  total_hours :: real
  break_duration :: real
  is_present :: bool

text \<open>
  Modelled from the spec: the ledger's state (section 4.5), the contents of the two
  tables; at the start both are empty.
\<close>

record Ledger =
  attendance_logs :: "AttendanceRecord list"
  attendance_summaries :: "AttendanceSummary list"

definition empty_ledger :: Ledger where
  "empty_ledger = \<lparr>attendance_logs = [], attendance_summaries = []\<rparr>"

text \<open>
  Modelled from the spec: the date and the time of day of an event timestamp, which the
  summary of section 3 is keyed and filled with; days of 86400 seconds.
\<close>

definition date_of :: "int \<Rightarrow> int" where
  "date_of ts = ts div 86400"

definition time_of :: "int \<Rightarrow> int" where
  "time_of ts = ts mod 86400"

text \<open>
  Modelled from the spec: ``the most recent AttendanceRecord'' (section 4.5, step 1), the
  record with the greatest timestamp among the given ones.
\<close>

fun most_recent :: "AttendanceRecord list \<Rightarrow> AttendanceRecord option" where
  "most_recent [] = None"
| "most_recent (r # rs) =
     (case most_recent rs of
        None \<Rightarrow> Some r
      | Some m \<Rightarrow> if timestamp r \<le> timestamp m then Some m else Some r)"

text \<open>
  Modelled from the spec: the records of an identity with a given event type, among
  which step 1 of section 4.5 looks.
\<close>

definition records_of :: "Ledger \<Rightarrow> int \<Rightarrow> attendance_type \<Rightarrow> AttendanceRecord list" where
  "records_of ledger ident eventType =
     filter (\<lambda>r. log_user_id r = ident \<and> attendance_type r = eventType) (attendance_logs ledger)"

text \<open>
  Modelled from the spec: step 1 of the ledger's algorithm (section 4.5), the most recent
  AttendanceRecord of the identity with the same event type. The ledger's code is not
  among the sources.
\<close>

definition last_of_type :: "Ledger \<Rightarrow> int \<Rightarrow> attendance_type \<Rightarrow> AttendanceRecord option" where
  "last_of_type ledger ident eventType =
     most_recent (records_of ledger ident eventType)"

text \<open>
  Modelled from the spec: step 3 of the ledger's algorithm, ``set or refresh
  first-check-in / last-check-out fields and presence flag'', on the summary row of the
  identity and date, which is created when it does not exist.
\<close>

definition refresh :: "attendance_type \<Rightarrow> int \<Rightarrow> AttendanceSummary \<Rightarrow> AttendanceSummary" where
  "refresh eventType t s =
     (case eventType of
        check_in \<Rightarrow>
          s\<lparr>check_in_time := Some (case check_in_time s of None \<Rightarrow> t | Some c \<Rightarrow> min c t),
            is_present := True\<rparr>
      | check_out \<Rightarrow>
          s\<lparr>check_out_time := Some (case check_out_time s of None \<Rightarrow> t | Some c \<Rightarrow> max c t),
            is_present := True\<rparr>)"

text \<open>
  Modelled from the spec: step 3 of the ledger's algorithm, the summary row created for
  an identity and date that has none, with the table's column defaults.
\<close>

definition new_summary :: "int \<Rightarrow> int \<Rightarrow> AttendanceSummary" where
  "new_summary ident d =
     \<lparr>summary_user_id = ident, date = d, check_in_time = None, check_out_time = None,
      total_hours = 0, break_duration = 0, is_present = False\<rparr>"

text \<open>
  Modelled from the spec: step 3 of the ledger's algorithm, ``update/create the
  AttendanceSummary row for (identity, date)''.
\<close>

fun upsert_summary ::
  "int \<Rightarrow> int \<Rightarrow> (AttendanceSummary \<Rightarrow> AttendanceSummary) \<Rightarrow> AttendanceSummary list
     \<Rightarrow> AttendanceSummary list" where
  "upsert_summary ident d f [] = [f (new_summary ident d)]"
| "upsert_summary ident d f (s # ss) =
     (if summary_user_id s = ident \<and> date s = d then f s # ss
      else s # upsert_summary ident d f ss)"

text \<open>
  Modelled from the spec: the rejection of section 4.5, \<open>Deduplicated\<close>.
\<close>

datatype rejected = Deduplicated

text \<open>
  Modelled from the spec: \<open>record\<close> (section 4.5), whose code is not among the sources.
  With a most recent record of the same type less than the cooldown before the new
  timestamp the call is rejected as \<open>Deduplicated\<close> and nothing is written; otherwise a
  record is appended and the summary of the identity and date is refreshed.
\<close>

definition record_attendance ::
  "int \<Rightarrow> Ledger \<Rightarrow> int \<Rightarrow> int \<Rightarrow> string \<Rightarrow> real \<Rightarrow> attendance_type
     \<Rightarrow> (rejected + AttendanceRecord) \<times> Ledger" where
  "record_attendance cooldown ledger ident ts cameraId conf eventType =
     (if (case last_of_type ledger ident eventType of
            None \<Rightarrow> False
          | Some l \<Rightarrow> ts - timestamp l < cooldown)
      then (Inl Deduplicated, ledger)
      else
        let r = \<lparr>log_id = Suc (length (attendance_logs ledger)), log_user_id = ident,
                 timestamp = ts, attendance_type = eventType, camera_id = cameraId,
                 confidence = conf, verification_time = None\<rparr>
        in (Inr r,
            ledger\<lparr>attendance_logs := attendance_logs ledger @ [r],
                   attendance_summaries :=
                     upsert_summary ident (date_of ts) (refresh eventType (time_of ts))
                       (attendance_summaries ledger)\<rparr>))"

section \<open>Properties of the dashboard\<close>

lemma reducer_unread_nonneg: "0 \<le> unreadCount (reducer st a)"
  by (cases a) (simp_all add: markNotificationRead_fulfilled_def
      markAllNotificationsRead_fulfilled_def)

lemma dispatch_all_snoc: "dispatch_all st (acts @ [a]) = reducer (dispatch_all st acts) a"
  by (simp add: dispatch_all_def)

text \<open>
  C10. Starting from the initial notifications state, \<open>unreadCount\<close> is never negative
  after any sequence of mark-read and mark-all-read actions; a single mark-read lowers
  the count by one but not below zero, and mark-all-read sets it to exactly zero.
\<close>

theorem unreadCount_never_negative:
  "0 \<le> unreadCount (dispatch_all initialState acts)
   \<and> unreadCount (markNotificationRead_fulfilled st i) = max 0 (unreadCount st - 1)
   \<and> unreadCount (markAllNotificationsRead_fulfilled st) = 0"
proof -
  have "0 \<le> unreadCount (dispatch_all initialState acts)"
  proof (induction acts rule: rev_induct)
    case Nil
    show ?case by (simp add: dispatch_all_def initialState_def)
  next
    case (snoc a acts)
    show ?case unfolding dispatch_all_snoc by (rule reducer_unread_nonneg)
  qed
  then show ?thesis
    by (simp add: markNotificationRead_fulfilled_def markAllNotificationsRead_fulfilled_def)
qed

theorem unreadCount_never_negative_witness:
  "0 \<le> unreadCount (dispatch_all initialState [MarkRead 4, MarkAllRead, MarkRead 7])
   \<and> unreadCount (markNotificationRead_fulfilled (initialState\<lparr>unreadCount := 2\<rparr>) 4) = 1
   \<and> unreadCount (markNotificationRead_fulfilled initialState 4) = 0
   \<and> unreadCount (markAllNotificationsRead_fulfilled (initialState\<lparr>unreadCount := 2\<rparr>)) = 0"
  using unreadCount_never_negative [of "[MarkRead 4, MarkAllRead, MarkRead 7]"
      "initialState\<lparr>unreadCount := 2\<rparr>" 4]
    unreadCount_never_negative [of "[]" initialState 4]
  by (simp add: initialState_def)

text \<open>
  C9. \<open>handleEnrollment\<close> issues the enrollment request exactly when three images are
  selected and the employee id is not empty, and does nothing otherwise; the request
  carries those three images and that id. The submit button is enabled only in such a
  state (and only while no request is pending).
\<close>

theorem enrollment_needs_three_images:
  "(handleEnrollment f \<noteq> None \<longleftrightarrow> length (selectedImages f) = 3 \<and> employeeId f \<noteq> [])
   \<and> (length (selectedImages f) \<noteq> 3 \<longrightarrow> handleEnrollment f = None)
   \<and> (handleEnrollment f = Some r \<longrightarrow>
        length (images r) = 3 \<and> images r = selectedImages f
        \<and> employee_id r = employeeId f \<and> employee_id r \<noteq> [] \<and> quality_check r)
   \<and> (\<not> enroll_disabled f \<longrightarrow> length (selectedImages f) = 3 \<and> employeeId f \<noteq> [])
   \<and> (length (selectedImages f) \<noteq> 3 \<or> employeeId f = [] \<longrightarrow> enroll_disabled f)"
  by (auto simp add: handleEnrollment_def enroll_disabled_def)

theorem enrollment_needs_three_images_witness:
  "handleEnrollment \<lparr>selectedImages = [''l'', ''r'', ''f''], employeeId = ''E1'', isPending = False\<rparr>
     = Some \<lparr>employee_id = ''E1'', images = [''l'', ''r'', ''f''], quality_check = True\<rparr>
   \<and> \<not> enroll_disabled \<lparr>selectedImages = [''l'', ''r'', ''f''], employeeId = ''E1'', isPending = False\<rparr>
   \<and> handleEnrollment \<lparr>selectedImages = [''l'', ''r''], employeeId = ''E1'', isPending = False\<rparr> = None
   \<and> enroll_disabled \<lparr>selectedImages = [''l'', ''r''], employeeId = ''E1'', isPending = False\<rparr>
   \<and> handleEnrollment \<lparr>selectedImages = [''l'', ''r'', ''f''], employeeId = [], isPending = False\<rparr> = None
   \<and> enroll_disabled \<lparr>selectedImages = [''l'', ''r'', ''f''], employeeId = [], isPending = False\<rparr>"
  using enrollment_needs_three_images
    [of "\<lparr>selectedImages = [''l'', ''r'', ''f''], employeeId = ''E1'', isPending = False\<rparr>"
        "\<lparr>employee_id = ''E1'', images = [''l'', ''r'', ''f''], quality_check = True\<rparr>"]
    enrollment_needs_three_images
    [of "\<lparr>selectedImages = [''l'', ''r''], employeeId = ''E1'', isPending = False\<rparr>"]
    enrollment_needs_three_images
    [of "\<lparr>selectedImages = [''l'', ''r'', ''f''], employeeId = [], isPending = False\<rparr>"]
  by (simp add: handleEnrollment_def enroll_disabled_def)

section \<open>Properties of the embedding store\<close>

subsection \<open>The similarity is one minus the distance\<close>

lemma cs_step:
  fixes d x y A B :: real
  assumes d: "d\<^sup>2 \<le> A * B" and A: "0 \<le> A" and B: "0 \<le> B"
  shows "(d + x * y)\<^sup>2 \<le> (A + x * x) * (B + y * y)"
proof -
  let ?m = "A * (y * y) + B * (x * x)"
  have m: "0 \<le> ?m" using A B by simp
  have "(2 * d * (x * y))\<^sup>2 = 4 * d\<^sup>2 * (x * y)\<^sup>2"
    by (simp add: power2_eq_square)
  also have "\<dots> \<le> 4 * (A * B) * (x * y)\<^sup>2"
    using d by (simp add: mult_right_mono)
  also have "\<dots> \<le> ?m\<^sup>2"
  proof -
    have "0 \<le> (A * (y * y) - B * (x * x))\<^sup>2" by simp
    then show ?thesis by (simp add: power2_eq_square algebra_simps)
  qed
  finally have "(2 * d * (x * y))\<^sup>2 \<le> ?m\<^sup>2" .
  then have "2 * d * (x * y) \<le> ?m"
    using m by (rule power2_le_imp_le)
  then show ?thesis
    using d by (simp add: power2_eq_square algebra_simps)
qed

lemma norm_sq_nonneg: "0 \<le> norm_sq a"
  by (induction a) (simp_all add: norm_sq_def inner_product_def)

lemma norm_sq_Nil: "norm_sq [] = 0"
  by (simp add: norm_sq_def inner_product_def)

lemma norm_sq_Cons: "norm_sq (x # a) = x * x + norm_sq a"
  by (simp add: norm_sq_def inner_product_def)

lemma inner_product_Nil: "inner_product [] b = 0"
  by (simp add: inner_product_def)

lemma inner_product_Cons: "inner_product (x # a) (y # b) = x * y + inner_product a b"
  by (simp add: inner_product_def)

lemma inner_product_zeros: "inner_product (replicate n 0) b = 0"
proof (induction n arbitrary: b)
  case 0
  show ?case by (simp add: inner_product_Nil)
next
  case (Suc n)
  show ?case
  proof (cases b)
    case Nil
    then show ?thesis by (simp add: inner_product_def)
  next
    case (Cons y b')
    with Suc show ?thesis by (simp add: inner_product_Cons)
  qed
qed

lemma norm_sq_zeros: "norm_sq (replicate n 0) = 0"
  by (simp add: norm_sq_def inner_product_zeros)

lemma inner_product_bound:
  "length a = length b \<Longrightarrow> (inner_product a b)\<^sup>2 \<le> norm_sq a * norm_sq b"
proof (induction a b rule: list_induct2)
  case Nil
  show ?case by (simp add: norm_sq_def inner_product_def)
next
  case (Cons x a y b)
  have "(inner_product a b + x * y)\<^sup>2 \<le> (norm_sq a + x * x) * (norm_sq b + y * y)"
    using Cons.IH norm_sq_nonneg norm_sq_nonneg by (rule cs_step)
  then show ?case
    by (simp add: norm_sq_Cons inner_product_Cons add.commute)
qed

lemma cosine_bounds:
  assumes len: "length a = length b" and a: "norm_sq a \<noteq> 0" and b: "norm_sq b \<noteq> 0"
  shows "\<bar>inner_product a b / sqrt (norm_sq a * norm_sq b)\<bar> \<le> 1"
proof -
  have pos: "0 < norm_sq a * norm_sq b"
    using a b norm_sq_nonneg [of a] norm_sq_nonneg [of b] by (simp add: less_le)
  have "\<bar>inner_product a b\<bar> = sqrt ((inner_product a b)\<^sup>2)" by simp
  also have "\<dots> \<le> sqrt (norm_sq a * norm_sq b)"
    using inner_product_bound [OF len] by (rule real_sqrt_le_mono)
  finally have "\<bar>inner_product a b\<bar> \<le> sqrt (norm_sq a * norm_sq b)" .
  moreover have "0 < sqrt (norm_sq a * norm_sq b)" using pos by simp
  ultimately show ?thesis by simp
qed

lemma similarity_of_nan:
  "cos_dist a b = Inr NaN \<Longrightarrow> calculate_face_similarity rnd cos_dist a b = Inr NaN"
  by (simp add: calculate_face_similarity_def float8_minus_def)

lemma similarity_of_number:
  assumes d: "cos_dist a b = Inr (Num d)" and range: "0 \<le> d" "d \<le> 2"
    and rnd: "mono rnd" "rnd 1 = 1" "rnd (- 1) = - 1"
  shows "calculate_face_similarity rnd cos_dist a b = Inr (Num (rnd (1 - d)))
     \<and> - 1 \<le> rnd (1 - d) \<and> rnd (1 - d) \<le> 1"
proof -
  have lo: "- 1 \<le> 1 - d" and hi: "1 - d \<le> 1" using range by simp_all
  have "rnd (- 1) \<le> rnd (1 - d)" using rnd(1) lo by (rule monoD)
  moreover have "rnd (1 - d) \<le> rnd 1" using rnd(1) hi by (rule monoD)
  ultimately have "- 1 \<le> rnd (1 - d)" and "rnd (1 - d) \<le> 1"
    by (simp_all only: rnd(2,3))
  then show ?thesis
    using d by (simp add: calculate_face_similarity_def float8_minus_def)
qed

lemma exact_distance:
  assumes len: "length a = length b" and a: "norm_sq a \<noteq> 0" and b: "norm_sq b \<noteq> 0"
  shows "exact_cosine_distance a b = Inr (Num (1 - cosine_similarity a b))
     \<and> 0 \<le> 1 - cosine_similarity a b \<and> 1 - cosine_similarity a b \<le> 2"
proof -
  let ?c = "inner_product a b / sqrt (norm_sq a * norm_sq b)"
  have c: "?c = cosine_similarity a b"
    by (simp add: cosine_similarity_def real_sqrt_mult)
  have "\<bar>?c\<bar> \<le> 1" using len a b by (rule cosine_bounds)
  then have "0 \<le> 1 - ?c \<and> 1 - ?c \<le> 2" by arith
  moreover have "exact_cosine_distance a b = Inr (Num (1 - ?c))"
    using len a b by (simp add: exact_cosine_distance_def)
  ultimately show ?thesis by (simp only: c)
qed

lemma exact_similarity:
  assumes len: "length a = length b" and a: "norm_sq a \<noteq> 0" and b: "norm_sq b \<noteq> 0"
  shows "calculate_face_similarity no_rounding exact_cosine_distance a b
         = Inr (Num (cosine_similarity a b))"
proof -
  from exact_distance [OF assms]
  have "exact_cosine_distance a b = Inr (Num (1 - cosine_similarity a b))" by (rule conjunct1)
  then show ?thesis
    by (simp add: calculate_face_similarity_def float8_minus_def no_rounding_def)
qed

lemma exact_zero_norm:
  assumes "length a = length b" and "norm_sq a = 0 \<or> norm_sq b = 0"
  shows "calculate_face_similarity rnd exact_cosine_distance a b = Inr NaN"
  using assms
  by (simp add: calculate_face_similarity_def exact_cosine_distance_def float8_minus_def)

lemma mono_no_rounding: "mono no_rounding"
  by (rule monoI) (simp add: no_rounding_def)

text \<open>
  C5. The similarity the store computes is one minus the value of the cosine-distance
  operator on the two vectors, in double precision. When that value is NaN the
  similarity is NaN, which is no number between \<open>-1\<close> and \<open>1\<close>; when it is a number between
  \<open>0\<close> and \<open>2\<close> (and rounding is monotone and leaves \<open>1\<close> and \<open>-1\<close> as they are) the
  similarity is a number between \<open>-1\<close> and \<open>1\<close>. In exact arithmetic, two vectors of the
  same dimension and of non-zero norm have a distance of one minus their cosine, between
  \<open>0\<close> and \<open>2\<close>, and the similarity is their cosine; with a vector of norm zero the
  similarity is NaN.
\<close>

theorem similarity_one_minus_distance:
  "(cos_dist a b = Inr NaN \<longrightarrow>
      calculate_face_similarity rnd cos_dist a b = Inr NaN
      \<and> \<not> in_range (- 1) 1 NaN)
   \<and> (cos_dist a b = Inr (Num d) \<and> 0 \<le> d \<and> d \<le> 2
        \<and> mono rnd \<and> rnd 1 = 1 \<and> rnd (- 1) = - 1 \<longrightarrow>
      calculate_face_similarity rnd cos_dist a b = Inr (Num (rnd (1 - d)))
      \<and> in_range (- 1) 1 (Num (rnd (1 - d))))
   \<and> (length a = length b \<and> norm_sq a \<noteq> 0 \<and> norm_sq b \<noteq> 0 \<longrightarrow>
      exact_cosine_distance a b = Inr (Num (1 - cosine_similarity a b))
      \<and> in_range 0 2 (Num (1 - cosine_similarity a b))
      \<and> calculate_face_similarity no_rounding exact_cosine_distance a b
          = Inr (Num (cosine_similarity a b))
      \<and> in_range (- 1) 1 (Num (cosine_similarity a b)))
   \<and> (length a = length b \<and> (norm_sq a = 0 \<or> norm_sq b = 0) \<longrightarrow>
      calculate_face_similarity rnd exact_cosine_distance a b = Inr NaN)"
proof (intro conjI impI)
  assume "cos_dist a b = Inr NaN"
  then show "calculate_face_similarity rnd cos_dist a b = Inr NaN"
    by (rule similarity_of_nan)
next
  show "\<not> in_range (- 1) 1 NaN" by (simp add: in_range_def)
next
  assume h: "cos_dist a b = Inr (Num d) \<and> 0 \<le> d \<and> d \<le> 2
        \<and> mono rnd \<and> rnd 1 = 1 \<and> rnd (- 1) = - 1"
  then have "calculate_face_similarity rnd cos_dist a b = Inr (Num (rnd (1 - d)))
     \<and> - 1 \<le> rnd (1 - d) \<and> rnd (1 - d) \<le> 1"
    by (intro similarity_of_number) simp_all
  then show "calculate_face_similarity rnd cos_dist a b = Inr (Num (rnd (1 - d)))"
    and "in_range (- 1) 1 (Num (rnd (1 - d)))"
    by (simp_all add: in_range_def)
next
  assume h: "length a = length b \<and> norm_sq a \<noteq> 0 \<and> norm_sq b \<noteq> 0"
  then have len: "length a = length b" and a: "norm_sq a \<noteq> 0" and b: "norm_sq b \<noteq> 0"
    by simp_all
  from exact_distance [OF len a b]
  have d: "exact_cosine_distance a b = Inr (Num (1 - cosine_similarity a b))"
    and lo: "0 \<le> 1 - cosine_similarity a b" and hi: "1 - cosine_similarity a b \<le> 2"
    by blast+
  from d show "exact_cosine_distance a b = Inr (Num (1 - cosine_similarity a b))" .
  from lo hi show "in_range 0 2 (Num (1 - cosine_similarity a b))"
    by (simp add: in_range_def)
  show "calculate_face_similarity no_rounding exact_cosine_distance a b
          = Inr (Num (cosine_similarity a b))"
    using len a b by (rule exact_similarity)
  from lo hi show "in_range (- 1) 1 (Num (cosine_similarity a b))"
    by (simp add: in_range_def)
next
  assume "length a = length b \<and> (norm_sq a = 0 \<or> norm_sq b = 0)"
  then show "calculate_face_similarity rnd exact_cosine_distance a b = Inr NaN"
    by (intro exact_zero_norm) simp_all
qed

theorem similarity_one_minus_distance_witness:
  "exact_cosine_distance (3 # 4 # replicate 510 0) (4 # 3 # replicate 510 0) = Inr (Num (1 / 25))
   \<and> mono no_rounding \<and> no_rounding 1 = 1 \<and> no_rounding (- 1) = - 1
   \<and> calculate_face_similarity no_rounding exact_cosine_distance
        (3 # 4 # replicate 510 0) (4 # 3 # replicate 510 0) = Inr (Num (24 / 25))
   \<and> in_range (- 1) 1 (Num (24 / 25))
   \<and> cosine_similarity (3 # 4 # replicate 510 0) (4 # 3 # replicate 510 0) = 24 / 25
   \<and> exact_cosine_distance (replicate 512 0) (1 # replicate 511 0) = Inr NaN
   \<and> calculate_face_similarity no_rounding exact_cosine_distance
        (replicate 512 0) (1 # replicate 511 0) = Inr NaN"
proof -
  let ?a = "3 # 4 # replicate 510 (0::real)" and ?b = "4 # 3 # replicate 510 (0::real)"
  let ?z = "replicate 512 (0::real)" and ?u = "1 # replicate 511 (0::real)"
  have na: "norm_sq ?a = 25" and nb: "norm_sq ?b = 25"
    by (simp_all add: norm_sq_Cons norm_sq_zeros)
  have ab: "inner_product ?a ?b = 24"
    by (simp add: inner_product_Cons inner_product_zeros)
  have d: "exact_cosine_distance ?a ?b = Inr (Num (1 / 25))"
    by (simp add: exact_cosine_distance_def na nb ab)
  have c: "cosine_similarity ?a ?b = 24 / 25"
    by (simp add: cosine_similarity_def na nb ab)
  have z: "exact_cosine_distance ?z ?u = Inr NaN"
    by (simp add: exact_cosine_distance_def norm_sq_zeros)
  have r: "mono no_rounding \<and> no_rounding 1 = 1 \<and> no_rounding (- 1) = - 1"
    by (simp add: mono_no_rounding no_rounding_def)
  from similarity_one_minus_distance [of exact_cosine_distance ?a ?b no_rounding "1 / 25"] d r
  have "calculate_face_similarity no_rounding exact_cosine_distance ?a ?b
          = Inr (Num (no_rounding (1 - 1 / 25)))
        \<and> in_range (- 1) 1 (Num (no_rounding (1 - 1 / 25)))"
    by simp
  then have s: "calculate_face_similarity no_rounding exact_cosine_distance ?a ?b
          = Inr (Num (24 / 25)) \<and> in_range (- 1) 1 (Num (24 / 25))"
    by (simp add: no_rounding_def)
  from similarity_one_minus_distance [of exact_cosine_distance ?z ?u no_rounding] z
  have n: "calculate_face_similarity no_rounding exact_cosine_distance ?z ?u = Inr NaN"
    by blast
  from d r s c z n show ?thesis by blast
qed

theorem similarity_of_zero_vector_counterexample:
  "calculate_face_similarity no_rounding exact_cosine_distance
     (replicate 512 0) (1 # replicate 511 0) = Inr NaN
   \<and> \<not> in_range (- 1) 1 NaN"
  by (simp add: calculate_face_similarity_def exact_cosine_distance_def float8_minus_def
      norm_sq_zeros in_range_def)

subsection \<open>The query returns the highest-ranking candidates in order\<close>

lemma desc_key_le: "desc_key a \<le> desc_key b \<longleftrightarrow> float8_le b a"
  by (cases a; cases b) (simp_all add: desc_key_def float8_le_def)

lemma float8_le_refl: "float8_le a a"
  by (cases a) (simp_all add: float8_le_def)

lemma float8_le_trans: "float8_le a b \<Longrightarrow> float8_le b c \<Longrightarrow> float8_le a c"
  by (cases a; cases b; cases c) (simp_all add: float8_le_def)

lemma float8_le_total: "float8_le a b \<or> float8_le b a"
  by (cases a; cases b) (auto simp add: float8_le_def)

lemma score_rows_defined:
  "list_all (accepted cos_dist q) rows \<Longrightarrow> \<exists>cs. score_rows rnd cos_dist q rows = Inr cs"
proof (induction rows)
  case Nil
  show ?case by simp
next
  case (Cons fe rows)
  then obtain cs where cs: "score_rows rnd cos_dist q rows = Inr cs" by auto
  show ?case
  proof (cases "fe_embedding fe")
    case None
    with cs show ?thesis by simp
  next
    case (Some e)
    with Cons.prems obtain d where "cos_dist q e = Inr d"
      by (auto simp add: accepted_def split: sum.splits)
    then have "calculate_face_similarity rnd cos_dist q e = Inr (float8_minus rnd (Num 1) d)"
      by (simp add: calculate_face_similarity_def)
    with cs Some show ?thesis by simp
  qed
qed

lemma score_rows_complete:
  "score_rows rnd cos_dist q rows = Inr cs \<Longrightarrow>
   list_all2 (scored_as rnd cos_dist q) cs (filter (\<lambda>fe. fe_embedding fe \<noteq> None) rows)"
proof (induction rows arbitrary: cs)
  case Nil
  then show ?case by simp
next
  case (Cons fe rows)
  show ?case
  proof (cases "fe_embedding fe")
    case None
    with Cons show ?thesis by simp
  next
    case (Some e)
    with Cons.prems obtain s cs' where
      s: "calculate_face_similarity rnd cos_dist q e = Inr s"
      and cs': "score_rows rnd cos_dist q rows = Inr cs'"
      and cs: "cs = \<lparr>user_id = fe_user_id fe, similarity = s, embedding_id = fe_id fe\<rparr> # cs'"
      by (auto split: sum.splits)
    from Cons.IH [OF cs'] s Some show ?thesis
      by (simp add: cs scored_as_def)
  qed
qed

lemma rank_and_limit_length:
  "length (rank_and_limit thr n cs)
   = min n (length (filter (\<lambda>c. float8_le thr (similarity c)) cs))"
  by (simp add: rank_and_limit_def min.commute)

lemma sorted_desc_sort:
  "sorted_wrt (\<lambda>c c'. float8_le (similarity c') (similarity c))
     (sort_key (\<lambda>c. desc_key (similarity c)) xs)"
  using sorted_sort_key [of "\<lambda>c. desc_key (similarity c)" xs]
  by (simp add: sorted_map desc_key_le)

lemma rank_and_limit_sorted:
  "sorted_wrt (\<lambda>c c'. float8_le (similarity c') (similarity c)) (rank_and_limit thr n cs)"
  unfolding rank_and_limit_def by (rule sorted_wrt_take) (rule sorted_desc_sort)

lemma rank_and_limit_above:
  "c \<in> set (rank_and_limit thr n cs) \<Longrightarrow> float8_le thr (similarity c)"
  by (auto simp add: rank_and_limit_def dest: in_set_takeD)

lemma rank_and_limit_rest:
  "mset cs = mset (rank_and_limit thr n cs)
     + (mset (drop n (sort_key (\<lambda>c. desc_key (similarity c))
                        (filter (\<lambda>c. float8_le thr (similarity c)) cs)))
        + mset (filter (\<lambda>c. \<not> float8_le thr (similarity c)) cs))"
proof -
  let ?S = "sort_key (\<lambda>c. desc_key (similarity c))
              (filter (\<lambda>c. float8_le thr (similarity c)) cs)"
  have "mset cs = mset (filter (\<lambda>c. float8_le thr (similarity c)) cs)
                  + mset (filter (\<lambda>c. \<not> float8_le thr (similarity c)) cs)"
    by (simp only: mset_filter multiset_partition [symmetric])
  also have "mset (filter (\<lambda>c. float8_le thr (similarity c)) cs) = mset ?S" by simp
  also have "mset ?S = mset (take n ?S) + mset (drop n ?S)"
    by (simp only: mset_append [symmetric] append_take_drop_id)
  finally show ?thesis by (simp add: rank_and_limit_def ac_simps)
qed

lemma rank_and_limit_nearest:
  assumes c: "c \<in># mset cs - mset (rank_and_limit thr n cs)"
    and r: "r \<in> set (rank_and_limit thr n cs)"
  shows "float8_le (similarity c) (similarity r)"
proof -
  let ?S = "sort_key (\<lambda>c. desc_key (similarity c))
              (filter (\<lambda>c. float8_le thr (similarity c)) cs)"
  have "mset cs - mset (rank_and_limit thr n cs)
        = mset (drop n ?S) + mset (filter (\<lambda>c. \<not> float8_le thr (similarity c)) cs)"
    by (subst rank_and_limit_rest [of cs thr n]) simp
  with c consider "c \<in> set (drop n ?S)"
    | "c \<in> set (filter (\<lambda>c. \<not> float8_le thr (similarity c)) cs)"
    by auto
  then show ?thesis
  proof cases
    case 1
    have "sorted_wrt (\<lambda>c c'. float8_le (similarity c') (similarity c)) (take n ?S @ drop n ?S)"
      by (simp only: append_take_drop_id sorted_desc_sort)
    then have "\<forall>x\<in>set (take n ?S). \<forall>y\<in>set (drop n ?S). float8_le (similarity y) (similarity x)"
      unfolding sorted_wrt_append by blast
    with 1 r show ?thesis by (simp add: rank_and_limit_def)
  next
    case 2
    then have "\<not> float8_le thr (similarity c)" by simp
    with float8_le_total [of thr "similarity c"] have "float8_le (similarity c) thr" by blast
    then show ?thesis using rank_and_limit_above [OF r] by (rule float8_le_trans)
  qed
qed

lemma rank_and_limit_subset: "mset (rank_and_limit thr n cs) \<subseteq># mset cs"
  unfolding mset_subset_eq_exists_conv by (rule exI) (rule rank_and_limit_rest)

text \<open>
  C6. For a limit \<open>k\<close> that is not negative and a table whose rows the operator accepts,
  \<open>find_similar_faces\<close> returns candidates \<open>cs\<close> out of the scored rows, which are the rows
  of the table that have an embedding, one for one and in table order, each with its
  similarity to the query. There are at most \<open>k\<close> candidates (exactly \<open>k\<close>, or all scored
  rows at or above the threshold if these are fewer), all at or above the threshold, in
  descending order of similarity in PostgreSQL's ordering, in which NaN ranks above every
  number; and every scored row that was not returned ranks at most as high as every
  returned one, so that among numbers it is at most as similar to the query.
\<close>

theorem find_similar_faces_top_k:
  assumes k: "0 \<le> k" and rows: "list_all (accepted cos_dist q) rows"
  shows "\<exists>cs scored. find_similar_faces rnd cos_dist rows q thr k = Inr cs
      \<and> score_rows rnd cos_dist q rows = Inr scored
      \<and> list_all2 (scored_as rnd cos_dist q) scored
           (filter (\<lambda>fe. fe_embedding fe \<noteq> None) rows)
      \<and> mset cs \<subseteq># mset scored
      \<and> length cs \<le> nat k
      \<and> length cs = min (nat k) (length (filter (\<lambda>c. float8_le thr (similarity c)) scored))
      \<and> sorted_wrt (\<lambda>c c'. float8_le (similarity c') (similarity c)) cs
      \<and> (\<forall>c\<in>set cs. float8_le thr (similarity c))
      \<and> (\<forall>c\<in>#mset scored - mset cs. \<forall>r\<in>set cs. float8_le (similarity c) (similarity r))
      \<and> (\<forall>c\<in>#mset scored - mset cs. \<forall>r\<in>set cs. \<forall>x y.
            similarity c = Num x \<and> similarity r = Num y \<longrightarrow> x \<le> y)"
proof -
  from score_rows_defined [OF rows] obtain scored
    where sc: "score_rows rnd cos_dist q rows = Inr scored" ..
  let ?cs = "rank_and_limit thr (nat k) scored"
  from sc k have f: "find_similar_faces rnd cos_dist rows q thr k = Inr ?cs"
    by (simp add: find_similar_faces_def)
  have all: "list_all2 (scored_as rnd cos_dist q) scored
           (filter (\<lambda>fe. fe_embedding fe \<noteq> None) rows)"
    using sc by (rule score_rows_complete)
  have sub: "mset ?cs \<subseteq># mset scored" by (rule rank_and_limit_subset)
  have len: "length ?cs \<le> nat k" by (simp add: rank_and_limit_length)
  have len': "length ?cs = min (nat k) (length (filter (\<lambda>c. float8_le thr (similarity c)) scored))"
    by (rule rank_and_limit_length)
  have sorted: "sorted_wrt (\<lambda>c c'. float8_le (similarity c') (similarity c)) ?cs"
    by (rule rank_and_limit_sorted)
  have above: "\<forall>c\<in>set ?cs. float8_le thr (similarity c)"
    by (simp add: rank_and_limit_above)
  have near: "\<forall>c\<in>#mset scored - mset ?cs. \<forall>r\<in>set ?cs. float8_le (similarity c) (similarity r)"
    by (simp add: rank_and_limit_nearest)
  then have near': "\<forall>c\<in>#mset scored - mset ?cs. \<forall>r\<in>set ?cs. \<forall>x y.
            similarity c = Num x \<and> similarity r = Num y \<longrightarrow> x \<le> y"
    by (auto simp add: float8_le_def split: float8.splits)
  from f sc all sub len len' sorted above near near' show ?thesis by blast
qed

theorem find_similar_faces_top_k_witness:
  "(0::int) \<le> 2
   \<and> list_all (accepted exact_cosine_distance (1 # 0 # replicate 510 0))
       [\<lparr>fe_id = 1, fe_user_id = 10, fe_embedding = Some (40 # 9 # replicate 510 0)\<rparr>,
        \<lparr>fe_id = 2, fe_user_id = 11, fe_embedding = Some (1 # 0 # replicate 510 0)\<rparr>,
        \<lparr>fe_id = 3, fe_user_id = 12, fe_embedding = Some (0 # 1 # replicate 510 0)\<rparr>,
        \<lparr>fe_id = 4, fe_user_id = 13, fe_embedding = None\<rparr>,
        \<lparr>fe_id = 5, fe_user_id = 10, fe_embedding = Some (4 # 3 # replicate 510 0)\<rparr>]
   \<and> find_similar_faces no_rounding exact_cosine_distance
       [\<lparr>fe_id = 1, fe_user_id = 10, fe_embedding = Some (40 # 9 # replicate 510 0)\<rparr>,
        \<lparr>fe_id = 2, fe_user_id = 11, fe_embedding = Some (1 # 0 # replicate 510 0)\<rparr>,
        \<lparr>fe_id = 3, fe_user_id = 12, fe_embedding = Some (0 # 1 # replicate 510 0)\<rparr>,
        \<lparr>fe_id = 4, fe_user_id = 13, fe_embedding = None\<rparr>,
        \<lparr>fe_id = 5, fe_user_id = 10, fe_embedding = Some (4 # 3 # replicate 510 0)\<rparr>]
       (1 # 0 # replicate 510 0) (Num (6 / 10)) 2
     = Inr [\<lparr>user_id = 11, similarity = Num 1, embedding_id = 2\<rparr>,
            \<lparr>user_id = 10, similarity = Num (40 / 41), embedding_id = 1\<rparr>]
   \<and> score_rows no_rounding exact_cosine_distance (1 # 0 # replicate 510 0)
       [\<lparr>fe_id = 1, fe_user_id = 10, fe_embedding = Some (40 # 9 # replicate 510 0)\<rparr>,
        \<lparr>fe_id = 2, fe_user_id = 11, fe_embedding = Some (1 # 0 # replicate 510 0)\<rparr>,
        \<lparr>fe_id = 3, fe_user_id = 12, fe_embedding = Some (0 # 1 # replicate 510 0)\<rparr>,
        \<lparr>fe_id = 4, fe_user_id = 13, fe_embedding = None\<rparr>,
        \<lparr>fe_id = 5, fe_user_id = 10, fe_embedding = Some (4 # 3 # replicate 510 0)\<rparr>]
     = Inr [\<lparr>user_id = 10, similarity = Num (40 / 41), embedding_id = 1\<rparr>,
            \<lparr>user_id = 11, similarity = Num 1, embedding_id = 2\<rparr>,
            \<lparr>user_id = 12, similarity = Num 0, embedding_id = 3\<rparr>,
            \<lparr>user_id = 10, similarity = Num (4 / 5), embedding_id = 5\<rparr>]"
proof -
  let ?q = "1 # 0 # replicate 510 (0::real)"
  let ?rows = "[\<lparr>fe_id = 1, fe_user_id = 10, fe_embedding = Some (40 # 9 # replicate 510 0)\<rparr>,
        \<lparr>fe_id = 2, fe_user_id = 11, fe_embedding = Some (1 # 0 # replicate 510 0)\<rparr>,
        \<lparr>fe_id = 3, fe_user_id = 12, fe_embedding = Some (0 # 1 # replicate 510 0)\<rparr>,
        \<lparr>fe_id = 4, fe_user_id = 13, fe_embedding = None\<rparr>,
        \<lparr>fe_id = 5, fe_user_id = 10, fe_embedding = Some (4 # 3 # replicate 510 0)\<rparr>]"
  have k: "(0::int) \<le> 2" by simp
  have acc: "list_all (accepted exact_cosine_distance ?q) ?rows"
    by (simp add: accepted_def exact_cosine_distance_def)
  have sc: "score_rows no_rounding exact_cosine_distance ?q ?rows
     = Inr [\<lparr>user_id = 10, similarity = Num (40 / 41), embedding_id = 1\<rparr>,
            \<lparr>user_id = 11, similarity = Num 1, embedding_id = 2\<rparr>,
            \<lparr>user_id = 12, similarity = Num 0, embedding_id = 3\<rparr>,
            \<lparr>user_id = 10, similarity = Num (4 / 5), embedding_id = 5\<rparr>]"
    by (simp add: calculate_face_similarity_def exact_cosine_distance_def float8_minus_def
        no_rounding_def norm_sq_Cons norm_sq_zeros inner_product_Cons inner_product_zeros)
  from find_similar_faces_top_k [OF k acc, of no_rounding "Num (6 / 10)"]
  obtain cs where "find_similar_faces no_rounding exact_cosine_distance ?rows ?q (Num (6 / 10)) 2
      = Inr cs" by blast
  moreover have "find_similar_faces no_rounding exact_cosine_distance ?rows ?q (Num (6 / 10)) 2
     = Inr [\<lparr>user_id = 11, similarity = Num 1, embedding_id = 2\<rparr>,
            \<lparr>user_id = 10, similarity = Num (40 / 41), embedding_id = 1\<rparr>]"
    by (simp only: find_similar_faces_def sc)
      (simp add: rank_and_limit_def float8_le_def desc_key_def)
  ultimately show ?thesis using k acc sc by blast
qed

theorem zero_vector_ranks_first_counterexample:
  "find_similar_faces no_rounding exact_cosine_distance
     [\<lparr>fe_id = 1, fe_user_id = 13, fe_embedding = Some (0 # 0 # replicate 510 0)\<rparr>,
      \<lparr>fe_id = 2, fe_user_id = 11, fe_embedding = Some (1 # 0 # replicate 510 0)\<rparr>]
     (1 # 0 # replicate 510 0) (Num (6 / 10)) 1
   = Inr [\<lparr>user_id = 13, similarity = NaN, embedding_id = 1\<rparr>]
   \<and> calculate_face_similarity no_rounding exact_cosine_distance
       (1 # 0 # replicate 510 0) (1 # 0 # replicate 510 0) = Inr (Num 1)"
  by (simp add: find_similar_faces_def rank_and_limit_def float8_le_def desc_key_def
      calculate_face_similarity_def exact_cosine_distance_def float8_minus_def
      no_rounding_def norm_sq_Cons norm_sq_zeros inner_product_Cons inner_product_zeros)

section \<open>Properties of the matcher\<close>

text \<open>
  C1. When the store's query returns two top candidates of different identities, the
  first at or above the acceptance threshold and less than the separation threshold
  above the second, \<open>match\<close> returns Rejected with reason Ambiguous, and so never
  Accepted.
\<close>

theorem match_ambiguous:
  assumes "query v 2 = Inr (top1 # top2 # others)"
    and "user_id top1 \<noteq> user_id top2"
    and "acceptance_threshold cfg \<le> similarity top1"
    and "similarity top1 - similarity top2 < separation_threshold cfg"
  shows "match cfg query v = Inr (Rejected Ambiguous)
         \<and> (\<forall>i s. match cfg query v \<noteq> Inr (Accepted i s))"
  using assms by (simp add: match_def decide_def)

theorem match_ambiguous_witness:
  "store_query no_rounding exact_cosine_distance
       [\<lparr>fe_id = 1, fe_user_id = 10, fe_embedding = Some (40 # 9 # replicate 510 0)\<rparr>,
        \<lparr>fe_id = 2, fe_user_id = 11, fe_embedding = Some (1 # 0 # replicate 510 0)\<rparr>,
        \<lparr>fe_id = 3, fe_user_id = 12, fe_embedding = Some (0 # 1 # replicate 510 0)\<rparr>]
       (Num (6 / 10)) (1 # 0 # replicate 510 0) 2
     = Inr [\<lparr>user_id = 11, similarity = 1, embedding_id = 2\<rparr>,
            \<lparr>user_id = 10, similarity = 40 / 41, embedding_id = 1\<rparr>]
   \<and> (11::int) \<noteq> 10
   \<and> acceptance_threshold default_config \<le> 1
   \<and> 1 - 40 / 41 < separation_threshold default_config
   \<and> match default_config
       (store_query no_rounding exact_cosine_distance
          [\<lparr>fe_id = 1, fe_user_id = 10, fe_embedding = Some (40 # 9 # replicate 510 0)\<rparr>,
           \<lparr>fe_id = 2, fe_user_id = 11, fe_embedding = Some (1 # 0 # replicate 510 0)\<rparr>,
           \<lparr>fe_id = 3, fe_user_id = 12, fe_embedding = Some (0 # 1 # replicate 510 0)\<rparr>]
          (Num (6 / 10))) (1 # 0 # replicate 510 0)
     = Inr (Rejected Ambiguous)"
proof -
  let ?rows = "[\<lparr>fe_id = 1, fe_user_id = 10, fe_embedding = Some (40 # 9 # replicate 510 0)\<rparr>,
        \<lparr>fe_id = 2, fe_user_id = 11, fe_embedding = Some (1 # 0 # replicate 510 0)\<rparr>,
        \<lparr>fe_id = 3, fe_user_id = 12, fe_embedding = Some (0 # 1 # replicate 510 0)\<rparr>]"
  let ?q = "1 # 0 # replicate 510 (0::real)"
  let ?top1 = "\<lparr>user_id = 11, similarity = 1 :: real, embedding_id = 2\<rparr>"
  let ?top2 = "\<lparr>user_id = 10, similarity = 40 / 41 :: real, embedding_id = 1\<rparr>"
  have found: "store_query no_rounding exact_cosine_distance ?rows (Num (6 / 10)) ?q 2
      = Inr [?top1, ?top2]"
    by (simp add: store_query_def find_similar_faces_def rank_and_limit_def float8_le_def
        desc_key_def calculate_face_similarity_def exact_cosine_distance_def float8_minus_def
        no_rounding_def norm_sq_Cons norm_sq_zeros inner_product_Cons inner_product_zeros)
  have ids: "user_id ?top1 \<noteq> user_id ?top2" by simp
  have acc: "acceptance_threshold default_config \<le> similarity ?top1"
    by (simp add: default_config_def)
  have sep: "similarity ?top1 - similarity ?top2 < separation_threshold default_config"
    by (simp add: default_config_def)
  from match_ambiguous [of "store_query no_rounding exact_cosine_distance ?rows (Num (6 / 10))"
      ?q ?top1 ?top2 "[]" default_config, OF found ids acc sep]
  show ?thesis using found by (simp add: default_config_def)
qed

section \<open>Properties of the task orchestrator\<close>

lemma in_flight_for_map_le:
  assumes "\<And>t. subject_key (f t) = subject_key t" and "\<And>t. in_flight (f t) \<Longrightarrow> in_flight t"
  shows "in_flight_for key (map f ts) \<le> in_flight_for key ts"
proof (induction ts)
  case Nil
  show ?case by (simp add: in_flight_for_def)
next
  case (Cons t ts)
  then show ?case using assms [of t] by (auto simp add: in_flight_for_def)
qed

lemma in_flight_for_zero:
  "\<not> list_ex (\<lambda>t. subject_key t = key \<and> in_flight t) ts \<Longrightarrow> in_flight_for key ts = 0"
  by (induction ts) (auto simp add: in_flight_for_def)

lemma submit_in_flight:
  assumes "in_flight_for key' (tasks orch) \<le> 1"
  shows "in_flight_for key' (tasks (snd (submit orch k key input now))) \<le> 1"
proof (cases "list_ex (\<lambda>t. subject_key t = key \<and> in_flight t) (tasks orch)")
  case True
  with assms show ?thesis by (simp add: submit_def)
next
  case False
  show ?thesis
  proof (cases "key' = key")
    case True
    with False in_flight_for_zero [OF False] show ?thesis
      by (simp add: submit_def in_flight_for_def)
  next
    case neq: False
    with False assms show ?thesis
      by (simp add: submit_def in_flight_for_def)
  qed
qed

lemma update_task_in_flight:
  assumes "\<And>t. subject_key (f t) = subject_key t" and "\<And>t. in_flight (f t) \<Longrightarrow> in_flight t"
  shows "in_flight_for key (tasks (update_task tid f orch)) \<le> in_flight_for key (tasks orch)"
proof -
  have "in_flight_for key (map (\<lambda>t. if task_id t = tid then f t else t) (tasks orch))
        \<le> in_flight_for key (tasks orch)"
    by (rule in_flight_for_map_le) (auto simp add: assms split: if_splits)
  then show ?thesis by (simp add: update_task_def)
qed

lemma step_in_flight:
  assumes "in_flight_for key (tasks orch) \<le> 1"
  shows "in_flight_for key (tasks (step dl orch e)) \<le> 1"
proof (cases e)
  case (Submit k key' input now)
  with submit_in_flight [OF assms, of k key' input now] show ?thesis by simp
next
  case (Claim tid now)
  have "in_flight_for key (tasks (claim orch tid now)) \<le> in_flight_for key (tasks orch)"
    unfolding claim_def by (rule update_task_in_flight) (auto simp add: in_flight_def split: if_splits)
  with assms Claim show ?thesis by simp
next
  case (Complete tid payload now)
  have "in_flight_for key (tasks (complete orch tid payload now)) \<le> in_flight_for key (tasks orch)"
    unfolding complete_def by (rule update_task_in_flight) (auto simp add: in_flight_def split: if_splits)
  with assms Complete show ?thesis by simp
next
  case (Fail tid detail now)
  have "in_flight_for key (tasks (fail orch tid detail now)) \<le> in_flight_for key (tasks orch)"
    unfolding fail_def by (rule update_task_in_flight) (auto simp add: in_flight_def split: if_splits)
  with assms Fail show ?thesis by simp
next
  case (Expire now)
  have "in_flight_for key (tasks (expire dl orch now)) \<le> in_flight_for key (tasks orch)"
    unfolding expire_def by (simp, rule in_flight_for_map_le) (auto simp add: in_flight_def split: if_splits)
  with assms Expire show ?thesis by simp
qed

lemma run_snoc: "run dl orch (evs @ [e]) = step dl (run dl orch evs) e"
  by (simp add: run_def)

lemma run_in_flight:
  "in_flight_for key (tasks orch) \<le> 1 \<Longrightarrow> in_flight_for key (tasks (run dl orch evs)) \<le> 1"
proof (induction evs rule: rev_induct)
  case Nil
  then show ?case by (simp add: run_def)
next
  case (snoc e evs)
  then show ?case unfolding run_snoc by (intro step_in_flight) simp
qed

text \<open>
  C3. A submission for a subject key that has a task Queued or Processing is rejected
  with \<open>DuplicateInFlight\<close> and leaves the orchestrator as it was, so nothing is queued;
  and in every state the orchestrator reaches from its initial state, whatever the
  events, each subject key has at most one in-flight task.
\<close>

theorem at_most_one_in_flight:
  "(list_ex (\<lambda>t. subject_key t = key \<and> in_flight t) (tasks orch) \<longrightarrow>
      submit orch k key input now = (Inl DuplicateInFlight, orch))
   \<and> in_flight_for key' (tasks (run dl initial_orchestrator evs)) \<le> 1"
proof -
  have "in_flight_for key' (tasks initial_orchestrator) \<le> 1"
    by (simp add: in_flight_for_def initial_orchestrator_def)
  then have "in_flight_for key' (tasks (run dl initial_orchestrator evs)) \<le> 1"
    by (rule run_in_flight)
  then show ?thesis by (simp add: submit_def)
qed

theorem at_most_one_in_flight_witness:
  "list_ex (\<lambda>t. subject_key t = ''cam-1'' \<and> in_flight t)
     (tasks (run default_deadline initial_orchestrator
        [Submit Verification ''cam-1'' ''frame-a'' 0, Claim 0 1]))
   \<and> map state (tasks (run default_deadline initial_orchestrator
        [Submit Verification ''cam-1'' ''frame-a'' 0, Claim 0 1])) = [Processing]
   \<and> submitVerification (run default_deadline initial_orchestrator
        [Submit Verification ''cam-1'' ''frame-a'' 0, Claim 0 1]) ''frame-b'' ''cam-1'' 2
     = (Inl DuplicateInFlight, run default_deadline initial_orchestrator
        [Submit Verification ''cam-1'' ''frame-a'' 0, Claim 0 1])
   \<and> in_flight_for ''cam-1'' (tasks (run default_deadline initial_orchestrator
        [Submit Verification ''cam-1'' ''frame-a'' 0, Claim 0 1,
         Submit Verification ''cam-1'' ''frame-b'' 2,
         Submit Enrollment ''E1'' ''images'' 3])) = 1"
  using at_most_one_in_flight [of "''cam-1''"
      "run default_deadline initial_orchestrator
        [Submit Verification ''cam-1'' ''frame-a'' 0, Claim 0 1]"
      Verification "''frame-b''" 2 "''cam-1''" default_deadline
      "[Submit Verification ''cam-1'' ''frame-a'' 0, Claim 0 1,
         Submit Verification ''cam-1'' ''frame-b'' 2,
         Submit Enrollment ''E1'' ''images'' 3]"]
  by (simp add: run_def submit_def submitVerification_def claim_def update_task_def
      in_flight_def in_flight_for_def initial_orchestrator_def)

section \<open>Properties of the attendance ledger\<close>

lemma most_recent_is_latest:
  "most_recent rs = Some m \<Longrightarrow> m \<in> set rs \<and> (\<forall>r\<in>set rs. timestamp r \<le> timestamp m)"
proof (induction rs arbitrary: m)
  case Nil
  then show ?case by simp
next
  case (Cons r rs)
  show ?case
  proof (cases "most_recent rs")
    case None
    then have "rs = []" by (cases rs) (auto split: option.splits if_splits)
    with Cons.prems show ?thesis by simp
  next
    case (Some m')
    from Cons.IH [OF Some] Cons.prems Some show ?thesis
      by (auto split: if_splits)
  qed
qed

lemma most_recent_None: "most_recent rs = None \<longleftrightarrow> rs = []"
  by (cases rs) (auto split: option.splits)

lemma last_of_type_latest:
  assumes "last_of_type ledger i e = Some l"
  shows "l \<in> set (attendance_logs ledger) \<and> log_user_id l = i \<and> attendance_type l = e
     \<and> (\<forall>r\<in>set (records_of ledger i e). timestamp r \<le> timestamp l)"
  using most_recent_is_latest [of "records_of ledger i e" l] assms
  by (auto simp add: last_of_type_def records_of_def)

lemma record_dedup:
  assumes "last_of_type ledger i e = Some l" and "ts - timestamp l < cooldown"
  shows "record_attendance cooldown ledger i ts cam conf e = (Inl Deduplicated, ledger)"
  using assms by (simp add: record_attendance_def)

lemma record_append:
  assumes "last_of_type ledger i e = Some l" and "cooldown \<le> ts - timestamp l"
  shows "\<exists>r ledger'. record_attendance cooldown ledger i ts cam conf e = (Inr r, ledger')
     \<and> attendance_logs ledger' = attendance_logs ledger @ [r]
     \<and> log_user_id r = i \<and> timestamp r = ts \<and> attendance_type r = e
     \<and> camera_id r = cam \<and> confidence r = conf"
  using assms by (simp add: record_attendance_def Let_def)

lemma first_record:
  assumes none: "last_of_type ledger i e = None"
    and once: "once = snd (record_attendance cooldown ledger i t cam conf e)"
  shows "records_of once i e
      = [\<lparr>log_id = Suc (length (attendance_logs ledger)), log_user_id = i,
          timestamp = t, attendance_type = e, camera_id = cam,
          confidence = conf, verification_time = None\<rparr>]"
proof -
  from none have "records_of ledger i e = []"
    by (simp add: last_of_type_def most_recent_None)
  with none show ?thesis
    by (simp add: once record_attendance_def Let_def records_of_def)
qed

lemma second_record:
  assumes none: "last_of_type ledger i e = None"
    and once: "once = snd (record_attendance cooldown ledger i t cam conf e)"
  shows "d < cooldown \<Longrightarrow>
         record_attendance cooldown once i (t + d) cam' conf' e = (Inl Deduplicated, once)"
    and "cooldown \<le> d \<Longrightarrow>
         length (records_of (snd (record_attendance cooldown once i (t + d) cam' conf' e)) i e) = 2"
proof -
  note logs = first_record [OF none once]
  then have last: "last_of_type once i e
      = Some \<lparr>log_id = Suc (length (attendance_logs ledger)), log_user_id = i,
          timestamp = t, attendance_type = e, camera_id = cam,
          confidence = conf, verification_time = None\<rparr>"
    by (simp add: last_of_type_def)
  show "record_attendance cooldown once i (t + d) cam' conf' e = (Inl Deduplicated, once)"
    if "d < cooldown"
    using that last by (simp add: record_attendance_def)
  show "length (records_of (snd (record_attendance cooldown once i (t + d) cam' conf' e)) i e) = 2"
    if "cooldown \<le> d"
    using that last logs by (simp add: record_attendance_def Let_def records_of_def)
qed

text \<open>
  C2. When the identity has a most recent record \<open>l\<close> of the event type (a record of that
  identity and type with the greatest timestamp), a call less than the cooldown after it
  is rejected as \<open>Deduplicated\<close> and leaves the ledger as it was, and a call at least the
  cooldown after it appends a new record with the call's data. So for an identity with
  no record of the type yet, a first call writes one record; a second call \<open>d\<close> seconds
  later is \<open>Deduplicated\<close> and writes nothing when \<open>d\<close> is below the cooldown (5 s against
  60 s: one record), and appends a second record when \<open>d\<close> is at least the cooldown (70 s
  against 60 s: two records).
\<close>

theorem attendance_dedup:
  "(last_of_type ledger i e = Some l \<longrightarrow>
      l \<in> set (attendance_logs ledger) \<and> log_user_id l = i \<and> attendance_type l = e
      \<and> (\<forall>r\<in>set (records_of ledger i e). timestamp r \<le> timestamp l)
      \<and> (ts - timestamp l < cooldown \<longrightarrow>
           record_attendance cooldown ledger i ts cam conf e = (Inl Deduplicated, ledger))
      \<and> (cooldown \<le> ts - timestamp l \<longrightarrow>
           (\<exists>r ledger'. record_attendance cooldown ledger i ts cam conf e = (Inr r, ledger')
              \<and> attendance_logs ledger' = attendance_logs ledger @ [r]
              \<and> log_user_id r = i \<and> timestamp r = ts \<and> attendance_type r = e
              \<and> camera_id r = cam \<and> confidence r = conf)))
   \<and> (last_of_type ledger i e = None \<longrightarrow>
      length (records_of (snd (record_attendance cooldown ledger i t cam conf e)) i e) = 1
      \<and> (d < cooldown \<longrightarrow>
           record_attendance cooldown (snd (record_attendance cooldown ledger i t cam conf e))
             i (t + d) cam' conf' e
           = (Inl Deduplicated, snd (record_attendance cooldown ledger i t cam conf e)))
      \<and> (cooldown \<le> d \<longrightarrow>
           length (records_of
             (snd (record_attendance cooldown
                    (snd (record_attendance cooldown ledger i t cam conf e))
                    i (t + d) cam' conf' e)) i e) = 2))"
  using last_of_type_latest [of ledger i e l] record_dedup [of ledger i e l ts cooldown cam conf]
    record_append [of ledger i e l cooldown ts cam conf]
    first_record [where ledger = ledger and i = i and e = e and t = t and cam = cam
      and conf = conf and cooldown = cooldown, OF _ refl]
    second_record [where ledger = ledger and i = i and e = e and t = t and cam = cam
      and conf = conf and cooldown = cooldown and d = d and cam' = cam' and conf' = conf',
      OF _ refl]
  by simp

theorem attendance_dedup_witness:
  "last_of_type empty_ledger 7 check_in = None
   \<and> length (records_of
        (snd (record_attendance 60 empty_ledger 7 1000 ''cam-1'' (9 / 10) check_in))
        7 check_in) = 1
   \<and> record_attendance 60
        (snd (record_attendance 60 empty_ledger 7 1000 ''cam-1'' (9 / 10) check_in))
        7 (1000 + 5) ''cam-2'' (8 / 10) check_in
      = (Inl Deduplicated,
         snd (record_attendance 60 empty_ledger 7 1000 ''cam-1'' (9 / 10) check_in))
   \<and> length (records_of
        (snd (record_attendance 60
               (snd (record_attendance 60 empty_ledger 7 1000 ''cam-1'' (9 / 10) check_in))
               7 (1000 + 70) ''cam-2'' (8 / 10) check_in))
        7 check_in) = 2
   \<and> last_of_type
        \<lparr>attendance_logs =
           [\<lparr>log_id = 1, log_user_id = 7, timestamp = 1000, attendance_type = check_in,
             camera_id = ''cam-1'', confidence = 9 / 10, verification_time = None\<rparr>],
         attendance_summaries = []\<rparr> 7 check_in
      = Some \<lparr>log_id = 1, log_user_id = 7, timestamp = 1000, attendance_type = check_in,
             camera_id = ''cam-1'', confidence = 9 / 10, verification_time = None\<rparr>
   \<and> record_attendance 60
        \<lparr>attendance_logs =
           [\<lparr>log_id = 1, log_user_id = 7, timestamp = 1000, attendance_type = check_in,
             camera_id = ''cam-1'', confidence = 9 / 10, verification_time = None\<rparr>],
         attendance_summaries = []\<rparr> 7 1059 ''cam-2'' (8 / 10) check_in
      = (Inl Deduplicated,
         \<lparr>attendance_logs =
           [\<lparr>log_id = 1, log_user_id = 7, timestamp = 1000, attendance_type = check_in,
             camera_id = ''cam-1'', confidence = 9 / 10, verification_time = None\<rparr>],
         attendance_summaries = []\<rparr>)"
proof -
  let ?l = "\<lparr>log_id = 1, log_user_id = 7, timestamp = 1000, attendance_type = check_in,
             camera_id = ''cam-1'', confidence = 9 / 10, verification_time = None\<rparr>"
  let ?ledger = "\<lparr>attendance_logs = [?l], attendance_summaries = []\<rparr>"
  have none: "last_of_type empty_ledger 7 check_in = None"
    by (simp add: last_of_type_def records_of_def empty_ledger_def)
  have some: "last_of_type ?ledger 7 check_in = Some ?l"
    by (simp add: last_of_type_def records_of_def)
  have near: "(1059::int) - timestamp ?l < 60" by simp
  have five: "(5::int) < 60" and seventy: "(60::int) \<le> 70" by simp_all
  from attendance_dedup [where ledger = empty_ledger and i = 7 and e = check_in
      and cooldown = 60 and d = 5 and t = 1000 and cam = "''cam-1''" and conf = "9 / 10"
      and cam' = "''cam-2''" and conf' = "8 / 10"] none five
  have first: "length (records_of
        (snd (record_attendance 60 empty_ledger 7 1000 ''cam-1'' (9 / 10) check_in))
        7 check_in) = 1
     \<and> record_attendance 60
        (snd (record_attendance 60 empty_ledger 7 1000 ''cam-1'' (9 / 10) check_in))
        7 (1000 + 5) ''cam-2'' (8 / 10) check_in
      = (Inl Deduplicated,
         snd (record_attendance 60 empty_ledger 7 1000 ''cam-1'' (9 / 10) check_in))"
    by blast
  from attendance_dedup [where ledger = empty_ledger and i = 7 and e = check_in
      and cooldown = 60 and d = 70 and t = 1000 and cam = "''cam-1''" and conf = "9 / 10"
      and cam' = "''cam-2''" and conf' = "8 / 10"] none seventy
  have second: "length (records_of
        (snd (record_attendance 60
               (snd (record_attendance 60 empty_ledger 7 1000 ''cam-1'' (9 / 10) check_in))
               7 (1000 + 70) ''cam-2'' (8 / 10) check_in))
        7 check_in) = 2"
    by blast
  from attendance_dedup [where ledger = ?ledger and i = 7 and e = check_in and l = ?l
      and ts = 1059 and cooldown = 60 and cam = "''cam-2''" and conf = "8 / 10"] some near
  have third: "record_attendance 60 ?ledger 7 1059 ''cam-2'' (8 / 10) check_in
      = (Inl Deduplicated, ?ledger)"
    by blast
  from none first second some third show ?thesis by blast
qed

end
